theory Spec2Isabelle
  imports Main "HOL-Library.Multiset"
begin

section \<open>Validator error records\<close>

text \<open>
  The rules \<open>typescript-config/is-valid\<close> and \<open>babel-config/is-valid\<close> receive the error
  objects of the schema validator (\<open>ajv.ErrorObject\<close>). The fields read by the rules are
  \<open>keyword\<close>, \<open>dataPath\<close>, \<open>message\<close>, \<open>params\<close> and \<open>data\<close>.

  \<open>data\<close> is the value found in the user's file: any JSON value, or \<open>undefined\<close> when the
  validator does not pass it on. The elements of \<open>allowedValues\<close> have type \<open>any\<close> as well.
  An object is given by its own properties in the order of the file. A number is carried
  with the string that \<open>Number.prototype.toString\<close> yields for it: the shortest decimal that
  reads back as the same double is floating point arithmetic and is not modelled.
\<close>

datatype jsvalue =
    JUndefined
  | JNull
  | JBool bool
  | JNumber string
  | JString string
  | JArray "jsvalue list"
  | JObject "(string \<times> jsvalue) list"

datatype js_error = TypeError | SinkRejection

datatype params =
    AdditionalPropertiesParams string
  | EnumParams "jsvalue list"
  | OtherParams

record ErrorObject =
  keyword :: string
  dataPath :: string
  message :: string
  params :: params
  data :: jsvalue

abbreviation (input) sq :: string where
  "sq \<equiv> [CHR 0x27]"

abbreviation (input) dq :: char where
  "dq \<equiv> CHR 0x22"

section \<open>String primitives\<close>

text \<open>\<open>s.substr(1)\<close>: everything after the first character; the empty string stays empty.\<close>

definition substr1 :: "string \<Rightarrow> string" where
  "substr1 s = drop 1 s"

text \<open>\<open>s.replace(/"/g, '\'')\<close>: every double quote becomes a single quote.\<close>

definition replace_quotes :: "string \<Rightarrow> string" where
  "replace_quotes s = map (\<lambda>c. if c = dq then CHR 0x27 else c) s"

text \<open>Strings with a separator between neighbours.\<close>

fun join :: "string \<Rightarrow> string list \<Rightarrow> string" where
  "join sep [] = []"
| "join sep [x] = x"
| "join sep (x # y # ys) = x @ sep @ join sep (y # ys)"

text \<open>
  The string conversion that a template literal \<open>`${v}`\<close> and \<open>Array.prototype.join\<close> apply
  to a value. A primitive is printed. An array is converted by \<open>Array.prototype.toString\<close>,
  which joins the conversions of its elements with a comma, \<open>undefined\<close> and \<open>null\<close> counting
  as the empty string. Any other object is converted by the first callable of its
  \<open>toString\<close> and \<open>valueOf\<close> that returns a primitive: an object read from JSON inherits
  \<open>Object.prototype.toString\<close>, which yields \<open>[object Object]\<close>, unless it has an own
  property \<open>toString\<close>; that property holds a JSON value, which is not callable, the
  inherited \<open>valueOf\<close> returns the object itself, and the conversion throws a TypeError.
\<close>

fun ToString :: "jsvalue \<Rightarrow> js_error + string"
  and join_elements :: "jsvalue list \<Rightarrow> js_error + string list" where
  "ToString JUndefined = Inr ''undefined''"
| "ToString JNull = Inr ''null''"
| "ToString (JBool b) = Inr (if b then ''true'' else ''false'')"
| "ToString (JNumber n) = Inr n"
| "ToString (JString s) = Inr s"
| "ToString (JArray vs) =
     (case join_elements vs of
        Inl exn \<Rightarrow> Inl exn
      | Inr strings \<Rightarrow> Inr (join '','' strings))"
| "ToString (JObject properties) =
     (if ''toString'' \<in> fst ` set properties then Inl TypeError else Inr ''[object Object]'')"
| "join_elements [] = Inr []"
| "join_elements (v # vs) =
     (case (if v = JUndefined \<or> v = JNull then Inr [] else ToString v) of
        Inl exn \<Rightarrow> Inl exn
      | Inr s \<Rightarrow>
          (case join_elements vs of
             Inl exn \<Rightarrow> Inl exn
           | Inr strings \<Rightarrow> Inr (s # strings)))"

text \<open>\<open>xs.join(sep)\<close> on an array of values.\<close>

definition array_join :: "string \<Rightarrow> jsvalue list \<Rightarrow> js_error + string" where
  "array_join sep vs =
     (case join_elements vs of
        Inl exn \<Rightarrow> Inl exn
      | Inr strings \<Rightarrow> Inr (join sep strings))"

section \<open>Message generators\<close>

text \<open>
  Property access on \<open>error.params\<close> after the type cast: a params object of another keyword
  has no such property, and the access yields \<open>undefined\<close>.
\<close>

fun get_additionalProperty :: "params \<Rightarrow> jsvalue" where
  "get_additionalProperty (AdditionalPropertiesParams p) = JString p"
| "get_additionalProperty _ = JUndefined"

fun get_allowedValues :: "params \<Rightarrow> jsvalue list option" where
  "get_allowedValues (EnumParams vs) = Some vs"
| "get_allowedValues _ = None"

text \<open>
  A generator returns \<open>null\<close> (\<open>None\<close>) for an error of another keyword. The generators for
  \<open>additionalProperties\<close> and \<open>enum\<close> are the same text in both rules (the babel rule reads
  the keyword from its \<open>errorKeywords\<close> table). The template literal converts its values from
  left to right; calling \<open>join\<close> on a missing \<open>allowedValues\<close> throws, and so does a
  conversion that throws.
\<close>

definition generateAdditionalPropertiesError :: "ErrorObject \<Rightarrow> js_error + string option" where
  "generateAdditionalPropertiesError error =
     (if keyword error \<noteq> ''additionalProperties'' then Inr None
      else
        let property = substr1 (dataPath error);
            additionalProperty = get_additionalProperty (params error)
        in case ToString additionalProperty of
             Inl exn \<Rightarrow> Inl exn
           | Inr found \<Rightarrow>
               Inr (Some (sq @ property @ ''' '' @ message error
                          @ ''. Additional property found '' @ sq @ found @ '''.'')))"

definition generateEnumError :: "ErrorObject \<Rightarrow> js_error + string option" where
  "generateEnumError error =
     (if keyword error \<noteq> ''enum'' then Inr None
      else
        let property = substr1 (dataPath error)
        in case get_allowedValues (params error) of
             None \<Rightarrow> Inl TypeError
           | Some allowedValues \<Rightarrow>
               (case array_join '', '' allowedValues of
                  Inl exn \<Rightarrow> Inl exn
                | Inr joined \<Rightarrow>
                    (case ToString (data error) of
                       Inl exn \<Rightarrow> Inl exn
                     | Inr found \<Rightarrow>
                         Inr (Some (sq @ property @ ''' '' @ message error @ '' '' @ sq
                                    @ joined @ '''. Value found '' @ sq @ found @ sq)))))"

text \<open>The third generator differs: \<open>type\<close> in the babel rule, \<open>pattern\<close> in the typescript rule.\<close>

definition generateTypeError :: "ErrorObject \<Rightarrow> js_error + string option" where
  "generateTypeError error =
     (if keyword error \<noteq> ''type'' then Inr None
      else
        let property = substr1 (dataPath error)
        in Inr (Some (sq @ property @ ''' '' @ replace_quotes (message error) @ ''.'')))"

definition generatePatternError :: "ErrorObject \<Rightarrow> js_error + string option" where
  "generatePatternError error =
     (if keyword error \<noteq> ''pattern'' then Inr None
      else
        let property = substr1 (dataPath error)
        in case ToString (data error) of
             Inl exn \<Rightarrow> Inl exn
           | Inr found \<Rightarrow>
               Inr (Some (sq @ property @ ''' '' @ replace_quotes (message error)
                          @ ''. Value found '' @ sq @ found @ sq)))"

section \<open>The formatter chain\<close>

datatype dialect = Babel | TypeScript

fun errorGenerators :: "dialect \<Rightarrow> (ErrorObject \<Rightarrow> js_error + string option) list" where
  "errorGenerators Babel =
     [generateAdditionalPropertiesError, generateEnumError, generateTypeError]"
| "errorGenerators TypeScript =
     [generateAdditionalPropertiesError, generateEnumError, generatePatternError]"

text \<open>
  \<open>errorGenerators.reduce(..., error.message)\<close>: every generator is called in turn; a truthy
  result (a string that is neither \<open>null\<close> nor empty) replaces the accumulated message, and
  an exception of a generator ends the reduction.
\<close>

fun truthy :: "string option \<Rightarrow> bool" where
  "truthy None = False"
| "truthy (Some s) = (s \<noteq> [])"

fun reduce :: "(ErrorObject \<Rightarrow> js_error + string option) list \<Rightarrow> ErrorObject \<Rightarrow> string
    \<Rightarrow> js_error + string" where
  "reduce [] error msg = Inr msg"
| "reduce (generator # generators) error msg =
     (case generator error of
        Inl exn \<Rightarrow> Inl exn
      | Inr newErrorMessage \<Rightarrow>
          if truthy newErrorMessage then reduce generators error (the newErrorMessage)
          else reduce generators error msg)"

definition prettyfy :: "dialect \<Rightarrow> ErrorObject \<Rightarrow> js_error + string" where
  "prettyfy d error = reduce (errorGenerators d) error (message error)"

text \<open>The keywords for which a dialect declares a template.\<close>

fun templateKeywords :: "dialect \<Rightarrow> string list" where
  "templateKeywords Babel = [''additionalProperties'', ''enum'', ''type'']"
| "templateKeywords TypeScript = [''additionalProperties'', ''enum'', ''pattern'']"

section \<open>Error objects in the store\<close>

text \<open>
  The error list of an event is an array of object references. \<open>lodash.without\<close> compares
  with SameValueZero, which on objects is reference identity, so the errors are modelled as
  addresses into a store of records: two errors with equal fields are still two objects.
\<close>

type_synonym ref = nat

type_synonym heap = "ref \<Rightarrow> ErrorObject"

definition without :: "ref list \<Rightarrow> ref \<Rightarrow> ref list" where
  "without array v = filter (\<lambda>x. x \<noteq> v) array"

text \<open>\<open>array.map(f)\<close> with a callback that may throw: the first exception ends the call.\<close>

fun map_throwing :: "('a \<Rightarrow> js_error + 'b) \<Rightarrow> 'a list \<Rightarrow> js_error + 'b list" where
  "map_throwing f [] = Inr []"
| "map_throwing f (x # xs) =
     (case f x of
        Inl exn \<Rightarrow> Inl exn
      | Inr y \<Rightarrow> (case map_throwing f xs of Inl exn \<Rightarrow> Inl exn | Inr ys \<Rightarrow> Inr (y # ys)))"

section \<open>Grouping by dataPath\<close>

text \<open>
  \<open>lodash.groupby\<close> builds a plain object: it walks the array in order and, for the key of
  each element, pushes the element onto the array stored under that key, creating the
  property when the object does not have it yet. The object is modelled by its own
  properties in creation order. Every key is taken to become an own property, as the
  library documents; a release that assigns the key \<open>__proto__\<close> through the prototype
  setter is outside this model.
\<close>

type_synonym dictionary = "(string \<times> ref list) list"

fun push_value :: "string \<Rightarrow> ref \<Rightarrow> dictionary \<Rightarrow> dictionary" where
  "push_value key v [] = [(key, [v])]"
| "push_value key v ((k, vs) # rest) =
     (if k = key then (k, vs @ [v]) # rest else (k, vs) # push_value key v rest)"

definition groupBy :: "heap \<Rightarrow> ref list \<Rightarrow> dictionary" where
  "groupBy h errors = foldl (\<lambda>result v. push_value (dataPath (h v)) v result) [] errors"

text \<open>
  \<open>lodash.map\<close> over an object visits \<open>Object.keys\<close>, and the own keys of an object come in
  the order of the language: first the keys that are array indices (canonical decimal
  numerals below \<open>2^32 - 1\<close>) in ascending numeric order, then the other keys in creation order.
\<close>

definition is_digit :: "char \<Rightarrow> bool" where
  "is_digit c = (48 \<le> (of_char c :: nat) \<and> (of_char c :: nat) \<le> 57)"

definition index_value :: "string \<Rightarrow> nat" where
  "index_value s = foldl (\<lambda>n c. 10 * n + ((of_char c :: nat) - 48)) 0 s"

definition is_array_index :: "string \<Rightarrow> bool" where
  "is_array_index s =
     (s \<noteq> [] \<and> list_all is_digit s \<and> (s = ''0'' \<or> hd s \<noteq> CHR ''0'')
      \<and> index_value s < 2 ^ 32 - 1)"

definition own_entries :: "dictionary \<Rightarrow> dictionary" where
  "own_entries obj =
     sort_key (\<lambda>(k, vs). index_value k) (filter (\<lambda>(k, vs). is_array_index k) obj)
     @ filter (\<lambda>(k, vs). \<not> is_array_index k) obj"

text \<open>The groups in the order in which \<open>invalidSchema\<close> hands them to \<open>report\<close>.\<close>

definition grouped :: "heap \<Rightarrow> ref list \<Rightarrow> dictionary" where
  "grouped h errors = own_entries (groupBy h errors)"

text \<open>
  The sequence of first occurrences of the distinct values of a list, against which the
  order of the groups is compared.
\<close>

function first_occurrences :: "'a list \<Rightarrow> 'a list" where
  "first_occurrences [] = []"
| "first_occurrences (x # xs) = x # first_occurrences (removeAll x xs)"
  by pat_completeness auto
termination
  by (relation "measure length") (auto simp: length_removeAll_less_eq le_imp_less_Suc)

text \<open>
  The dataPath of a validator error points into the document: it is empty for the document
  itself and otherwise starts with a separator, which is \<open>.\<close> or \<open>[\<close> in the property
  notation of the validator and \<open>/\<close> in its JSON pointer notation.
\<close>

definition validator_path :: "string \<Rightarrow> bool" where
  "validator_path p =
     (case p of [] \<Rightarrow> True | c # rest \<Rightarrow> c = CHR ''.'' \<or> c = CHR ''['' \<or> c = CHR ''/'')"

section \<open>Message of one error within its report call\<close>

text \<open>
  The body of the loop of \<open>report\<close> up to the call of \<open>context.report\<close>. \<open>errors\<close> is the
  argument of \<open>report\<close>: the group that \<open>invalidSchema\<close> passes. Only the typescript rule
  treats \<open>anyOf\<close>.
\<close>

fun report_text :: "dialect \<Rightarrow> heap \<Rightarrow> ref list \<Rightarrow> ref \<Rightarrow> js_error + string" where
  "report_text Babel h errors error = prettyfy Babel (h error)"
| "report_text TypeScript h errors error =
     (if keyword (h error) = ''anyOf'' then
        let otherErrors = without errors error
        in case map_throwing (\<lambda>otherError. prettyfy TypeScript (h otherError)) otherErrors of
             Inl exn \<Rightarrow> Inl exn
           | Inr results \<Rightarrow> Inr (join '' or '' results)
      else prettyfy TypeScript (h error))"

section \<open>The reporting sink\<close>

record DiagnosticMessage =
  diag_resource :: string
  diag_location :: "nat option"
  diag_text :: string

type_synonym sink = "DiagnosticMessage list"

text \<open>
  Modelled from the spec: \<open>context.report\<close> of the host's \<open>RuleContext\<close>, which is not part
  of the rule's sources. The outbound call \<open>report(resource, location, message)\<close> hands one
  diagnostic to the reporting sink and returns a promise, which the host acknowledges, or
  rejects when the sink fails. The sink is the sequence of the diagnostics handed to it so
  far; the answer to a call is the host's and not determined by the rule.
\<close>

definition context_report :: "string \<Rightarrow> nat option \<Rightarrow> string \<Rightarrow> sink \<Rightarrow> sink" where
  "context_report resource location text sink =
     sink @ [\<lparr>diag_resource = resource, diag_location = location, diag_text = text\<rparr>]"

datatype answer = Acknowledged | Rejected

text \<open>\<open>await\<close> on the promise of a call: it resumes on acknowledgement and throws on rejection.\<close>

fun await :: "answer \<Rightarrow> js_error option" where
  "await Acknowledged = None"
| "await Rejected = Some SinkRejection"

section \<open>The event handlers\<close>

record ParseError =
  error_message :: string

record ConfigInvalid =
  invalid_error :: ParseError
  invalid_resource :: string

record ConfigInvalidSchema =
  schema_errors :: "ref list"
  schema_resource :: string

text \<open>
  \<open>invalidJSONFile\<close> is the same in both rules up to the text of the debug line, which
  writes to the logger only. It makes one call of the sink; the answer to that call settles
  the promise of the handler and does not change what was handed over.
\<close>

definition invalidJSONFile :: "ConfigInvalid \<Rightarrow> sink \<Rightarrow> sink" where
  "invalidJSONFile payload sink =
     (let error = invalid_error payload; resource = invalid_resource payload
      in context_report resource None (error_message error) sink)"

text \<open>
  \<open>invalidSchema\<close> starts one call of the asynchronous \<open>report\<close> per group and awaits
  \<open>Promise.all\<close> of their promises. A call of \<open>report\<close> is a task: the group it was given,
  the part of its loop that is still to run, and the exception that has ended it, if any.
  Every iteration computes the text, calls \<open>context.report\<close> and suspends at the \<open>await\<close>,
  where the other tasks may run. The configuration holds the tasks, the sink, and a log that
  records for every call of the sink which task made it and for which error.
\<close>

record task =
  task_errors :: "ref list"
  task_pending :: "ref list"
  task_failed :: "js_error option"

record config =
  tasks :: "task list"
  sink :: sink
  log :: "(nat \<times> ref) list"

definition report :: "ref list \<Rightarrow> task" where
  "report errors = \<lparr>task_errors = errors, task_pending = errors, task_failed = None\<rparr>"

definition invalidSchema :: "heap \<Rightarrow> ConfigInvalidSchema \<Rightarrow> sink \<Rightarrow> config" where
  "invalidSchema h fetchEnd sink0 =
     (let errors = schema_errors fetchEnd
      in \<lparr>tasks = map (\<lambda>(key, values). report values) (grouped h errors),
          sink = sink0, log = []\<rparr>)"

text \<open>
  One iteration of the loop of task \<open>i\<close>, with the answer of the host to the call that the
  iteration makes. A task that has ended does nothing. An exception of the text computation
  ends the task before the call; a rejection ends it after the call.
\<close>

definition report_step ::
    "dialect \<Rightarrow> heap \<Rightarrow> string \<Rightarrow> nat \<times> answer \<Rightarrow> config \<Rightarrow> config" where
  "report_step d h resource turn c =
     (let i = fst turn in
      if i < length (tasks c) then
        let t = tasks c ! i in
        if task_failed t \<noteq> None then c
        else
          case task_pending t of
            [] \<Rightarrow> c
          | error # rest \<Rightarrow>
              (case report_text d h (task_errors t) error of
                 Inl exn \<Rightarrow> c\<lparr>tasks := (tasks c)[i := t\<lparr>task_failed := Some exn\<rparr>]\<rparr>
               | Inr text \<Rightarrow>
                   c\<lparr>tasks := (tasks c)[i := t\<lparr>task_pending := rest,
                                                 task_failed := await (snd turn)\<rparr>],
                     sink := context_report resource None text (sink c),
                     log := log c @ [(i, error)]\<rparr>)
      else c)"

text \<open>
  A schedule names, turn by turn, the task that runs and the answer of the host to its call.
  The runtime runs the first iteration of every task in the order of the groups and the
  later ones as the host answers; every such run is a schedule, and the properties below are
  proved for all schedules.
\<close>

definition run ::
    "dialect \<Rightarrow> heap \<Rightarrow> string \<Rightarrow> (nat \<times> answer) list \<Rightarrow> config \<Rightarrow> config" where
  "run d h resource schedule c = foldl (\<lambda>c turn. report_step d h resource turn c) c schedule"





section \<open>The formatter chain over the store\<close>

text \<open>
  The generators and \<open>prettyfy\<close> once more, statement by statement, as functions of the
  address of the error and the store that return their result together with the store
  they leave. The only access of the source to the error object is the property read
  \<open>error.f\<close>, which returns the field found in the store and leaves the store as it is; an
  assignment would return another store. The string methods \<open>substr\<close>, \<open>replace\<close> and
  \<open>join\<close> return new strings.
\<close>

definition read_field :: "(ErrorObject \<Rightarrow> 'a) \<Rightarrow> ref \<Rightarrow> heap \<Rightarrow> 'a \<times> heap" where
  "read_field field error h = (field (h error), h)"

definition generateAdditionalPropertiesError_call ::
    "ref \<Rightarrow> heap \<Rightarrow> (js_error + string option) \<times> heap" where
  "generateAdditionalPropertiesError_call error h =
     (let (kw, h1) = read_field keyword error h in
      if kw \<noteq> ''additionalProperties'' then (Inr None, h1)
      else
        let (path, h2) = read_field dataPath error h1;
            property = substr1 path;
            (ps, h3) = read_field params error h2;
            additionalProperty = get_additionalProperty ps;
            (msg, h4) = read_field message error h3
        in case ToString additionalProperty of
             Inl exn \<Rightarrow> (Inl exn, h4)
           | Inr found \<Rightarrow>
               (Inr (Some (sq @ property @ ''' '' @ msg
                           @ ''. Additional property found '' @ sq @ found @ '''.'')), h4))"

definition generateEnumError_call ::
    "ref \<Rightarrow> heap \<Rightarrow> (js_error + string option) \<times> heap" where
  "generateEnumError_call error h =
     (let (kw, h1) = read_field keyword error h in
      if kw \<noteq> ''enum'' then (Inr None, h1)
      else
        let (path, h2) = read_field dataPath error h1;
            property = substr1 path;
            (ps, h3) = read_field params error h2;
            (msg, h4) = read_field message error h3
        in case get_allowedValues ps of
             None \<Rightarrow> (Inl TypeError, h4)
           | Some allowedValues \<Rightarrow>
               (case array_join '', '' allowedValues of
                  Inl exn \<Rightarrow> (Inl exn, h4)
                | Inr joined \<Rightarrow>
                    let (found_data, h5) = read_field data error h4
                    in case ToString found_data of
                         Inl exn \<Rightarrow> (Inl exn, h5)
                       | Inr found \<Rightarrow>
                           (Inr (Some (sq @ property @ ''' '' @ msg @ '' '' @ sq
                                       @ joined @ '''. Value found '' @ sq @ found @ sq)), h5)))"

definition generateTypeError_call ::
    "ref \<Rightarrow> heap \<Rightarrow> (js_error + string option) \<times> heap" where
  "generateTypeError_call error h =
     (let (kw, h1) = read_field keyword error h in
      if kw \<noteq> ''type'' then (Inr None, h1)
      else
        let (path, h2) = read_field dataPath error h1;
            property = substr1 path;
            (msg, h3) = read_field message error h2
        in (Inr (Some (sq @ property @ ''' '' @ replace_quotes msg @ ''.'')), h3))"

definition generatePatternError_call ::
    "ref \<Rightarrow> heap \<Rightarrow> (js_error + string option) \<times> heap" where
  "generatePatternError_call error h =
     (let (kw, h1) = read_field keyword error h in
      if kw \<noteq> ''pattern'' then (Inr None, h1)
      else
        let (path, h2) = read_field dataPath error h1;
            property = substr1 path;
            (msg, h3) = read_field message error h2;
            (found_data, h4) = read_field data error h3
        in case ToString found_data of
             Inl exn \<Rightarrow> (Inl exn, h4)
           | Inr found \<Rightarrow>
               (Inr (Some (sq @ property @ ''' '' @ replace_quotes msg
                           @ ''. Value found '' @ sq @ found @ sq)), h4))"

fun errorGenerators_call ::
    "dialect \<Rightarrow> (ref \<Rightarrow> heap \<Rightarrow> (js_error + string option) \<times> heap) list" where
  "errorGenerators_call Babel =
     [generateAdditionalPropertiesError_call, generateEnumError_call, generateTypeError_call]"
| "errorGenerators_call TypeScript =
     [generateAdditionalPropertiesError_call, generateEnumError_call,
      generatePatternError_call]"

text \<open>The reduction hands the store that one generator leaves to the next one.\<close>

fun reduce_call ::
    "(ref \<Rightarrow> heap \<Rightarrow> (js_error + string option) \<times> heap) list \<Rightarrow> ref \<Rightarrow> string \<Rightarrow> heap
     \<Rightarrow> (js_error + string) \<times> heap" where
  "reduce_call [] error msg h = (Inr msg, h)"
| "reduce_call (generator # generators) error msg h =
     (case generator error h of
        (Inl exn, h') \<Rightarrow> (Inl exn, h')
      | (Inr newErrorMessage, h') \<Rightarrow>
          if truthy newErrorMessage then reduce_call generators error (the newErrorMessage) h'
          else reduce_call generators error msg h')"

definition prettyfy_call :: "dialect \<Rightarrow> ref \<Rightarrow> heap \<Rightarrow> (js_error + string) \<times> heap" where
  "prettyfy_call d error h =
     (let (msg, h0) = read_field message error h
      in reduce_call (errorGenerators_call d) error msg h0)"

section \<open>Example events\<close>

text \<open>
  A store with the errors of the fixture \<open>invalidschemapattern\<close> (an \<open>enum\<close>, a \<open>pattern\<close> and
  an \<open>anyOf\<close> error at \<open>.compilerOptions.target\<close>) at the addresses 0, 1 and 2, and an
  \<open>additionalProperties\<close> error at \<open>.compilerOptions\<close> at every other address.
\<close>

definition example_heap :: heap where
  "example_heap r =
     (if r = 0 then
        \<lparr>keyword = ''enum'', dataPath = ''.compilerOptions.target'',
         message = ''should be equal to one of the allowed values'',
         params = EnumParams [JString ''es3'', JString ''es5''], data = JString ''invalid''\<rparr>
      else if r = 1 then
        \<lparr>keyword = ''pattern'', dataPath = ''.compilerOptions.target'',
         message = ''should match pattern '' @ [dq] @ ''^es$'' @ [dq],
         params = OtherParams, data = JString ''invalid''\<rparr>
      else if r = 2 then
        \<lparr>keyword = ''anyOf'', dataPath = ''.compilerOptions.target'',
         message = ''should match some schema in anyOf'',
         params = OtherParams, data = JString ''invalid''\<rparr>
      else
        \<lparr>keyword = ''additionalProperties'', dataPath = ''.compilerOptions'',
         message = ''should NOT have additional properties'',
         params = AdditionalPropertiesParams ''x'', data = JUndefined\<rparr>)"

text \<open>
  A store for a file whose \<open>compilerOptions.target\<close> is the object \<open>{"toString": 1}\<close>: an
  \<open>enum\<close> error with that value as data at every address.
\<close>

definition object_heap :: heap where
  "object_heap r =
     \<lparr>keyword = ''enum'', dataPath = ''.compilerOptions.target'',
      message = ''should be equal to one of the allowed values'',
      params = EnumParams [JString ''es3'', JString ''es5''],
      data = JObject [(''toString'', JNumber ''1'')]\<rparr>"

section \<open>Properties of the formatter chain\<close>

lemmas generator_defs =
  generateAdditionalPropertiesError_def generateEnumError_def
  generateTypeError_def generatePatternError_def





text \<open>
  Claim C4. An error whose keyword has no template in the rule's table is formatted as its
  own message, unchanged, whatever its params and data are; the chain does not throw on it.
  This covers \<open>anyOf\<close> and \<open>pattern\<close> in the babel rule and \<open>type\<close> in the typescript rule.
\<close>

theorem unmatched_keyword_fallback:
  assumes "keyword e \<notin> set (templateKeywords d)"
  shows "prettyfy d e = Inr (message e)"
  using assms by (cases d) (simp_all add: prettyfy_def generator_defs)

theorem unmatched_keyword_fallback_witness:
  "prettyfy Babel
     \<lparr>keyword = ''anyOf'', dataPath = ''.presets'',
      message = ''should match some schema in anyOf'', params = OtherParams,
      data = JUndefined\<rparr>
   = Inr ''should match some schema in anyOf''"
  using unmatched_keyword_fallback [of "\<lparr>keyword = ''anyOf'', dataPath = ''.presets'',
      message = ''should match some schema in anyOf'', params = OtherParams,
      data = JUndefined\<rparr>" Babel]
  by simp

text \<open>
  Claim C5. The handler of a bad-JSON event with payload
  \<open>{ error: { message: m }, resource: r }\<close> adds exactly one diagnostic to the sink: for
  resource \<open>r\<close>, with null location and with the text \<open>m\<close> itself, which no formatter touches.
\<close>

theorem invalidJSONFile_one_diagnostic:
  "invalidJSONFile \<lparr>invalid_error = \<lparr>error_message = m\<rparr>, invalid_resource = r\<rparr> s
   = s @ [\<lparr>diag_resource = r, diag_location = None, diag_text = m\<rparr>]"
  by (simp add: invalidJSONFile_def context_report_def)

text \<open>
  Claim C6. An error with keyword \<open>additionalProperties\<close> is formatted as
  \<open>'<property>' <message>. Additional property found '<additionalProperty>'.\<close>, in both
  rules, with the property name taken from the params of the error.
\<close>

theorem additionalProperties_format:
  assumes "keyword e = ''additionalProperties''" and "params e = AdditionalPropertiesParams p"
  shows "prettyfy d e =
           Inr (sq @ drop 1 (dataPath e) @ ''' '' @ message e
                @ ''. Additional property found '' @ sq @ p @ '''.'')"
  using assms by (cases d) (simp_all add: prettyfy_def generator_defs substr1_def)

theorem additionalProperties_format_witness:
  "prettyfy TypeScript
     \<lparr>keyword = ''additionalProperties'', dataPath = ''/compilerOptions'',
      message = ''should NOT have additional properties'',
      params = AdditionalPropertiesParams ''invalidProperty'', data = JUndefined\<rparr>
   = Inr (sq @ ''compilerOptions'' @ ''' should NOT have additional properties''
          @ ''. Additional property found '' @ sq @ ''invalidProperty'' @ '''.'')"
  using additionalProperties_format [of "\<lparr>keyword = ''additionalProperties'',
      dataPath = ''/compilerOptions'', message = ''should NOT have additional properties'',
      params = AdditionalPropertiesParams ''invalidProperty'', data = JUndefined\<rparr>"
      "''invalidProperty''" TypeScript]
  by simp

text \<open>
  Claim C7. In the babel rule an error with keyword \<open>type\<close> is formatted as
  \<open>'<property>' <message>.\<close> with every double quote of the message turned into a single
  quote; in the typescript rule an error with keyword \<open>pattern\<close> has the same shape followed
  by \<open> Value found '<data>'\<close>, with the data, a string for this keyword, converted as the
  template literal does.
\<close>

theorem type_pattern_format:
  "(keyword e = ''type'' \<longrightarrow>
      prettyfy Babel e =
        Inr (sq @ drop 1 (dataPath e) @ ''' ''
             @ map (\<lambda>c. if c = dq then CHR 0x27 else c) (message e) @ ''.''))
   \<and> (keyword e = ''pattern'' \<longrightarrow>
      prettyfy TypeScript e =
        (case ToString (data e) of
           Inl exn \<Rightarrow> Inl exn
         | Inr found \<Rightarrow>
             Inr (sq @ drop 1 (dataPath e) @ ''' ''
                  @ map (\<lambda>c. if c = dq then CHR 0x27 else c) (message e) @ ''.''
                  @ '' Value found '' @ sq @ found @ sq)))
   \<and> (keyword e = ''pattern'' \<longrightarrow> data e = JString s \<longrightarrow>
      prettyfy TypeScript e =
        Inr (sq @ drop 1 (dataPath e) @ ''' ''
             @ map (\<lambda>c. if c = dq then CHR 0x27 else c) (message e) @ ''.''
             @ '' Value found '' @ sq @ s @ sq))"
  by (simp add: prettyfy_def generator_defs substr1_def replace_quotes_def split: sum.splits)

theorem type_pattern_format_witness:
  "prettyfy Babel
     \<lparr>keyword = ''type'', dataPath = ''.presets'',
      message = ''should be '' @ [dq] @ ''array'' @ [dq], params = OtherParams,
      data = JUndefined\<rparr>
   = Inr (sq @ ''presets'' @ ''' should be '' @ sq @ ''array'' @ '''.'')
   \<and> prettyfy TypeScript
     \<lparr>keyword = ''pattern'', dataPath = ''.compilerOptions.target'',
      message = ''should match pattern '' @ [dq] @ ''^es$'' @ [dq], params = OtherParams,
      data = JString ''invalid''\<rparr>
   = Inr (sq @ ''compilerOptions.target'' @ ''' should match pattern '' @ sq @ ''^es$''
          @ '''.'' @ '' Value found '' @ sq @ ''invalid'' @ sq)"
  using type_pattern_format [of "\<lparr>keyword = ''type'', dataPath = ''.presets'',
      message = ''should be '' @ [dq] @ ''array'' @ [dq], params = OtherParams,
      data = JUndefined\<rparr>"]
    type_pattern_format [of "\<lparr>keyword = ''pattern'', dataPath = ''.compilerOptions.target'',
      message = ''should match pattern '' @ [dq] @ ''^es$'' @ [dq], params = OtherParams,
      data = JString ''invalid''\<rparr>" "''invalid''"]
  by simp

text \<open>
  Claim C10. Every template shows as property the dataPath without its first character,
  whatever that character is: for an empty dataPath the property is empty, and for a
  dataPath \<open>c # cs\<close> it is \<open>cs\<close> even when \<open>c\<close> is no separator.
\<close>

theorem property_drops_first_character:
  assumes "keyword e \<in> set (templateKeywords d)" and "prettyfy d e = Inr s"
  shows "(dataPath e = [] \<longrightarrow> (\<exists>rest. s = sq @ sq @ rest))
       \<and> (\<forall>c cs. dataPath e = c # cs \<longrightarrow> (\<exists>rest. s = sq @ cs @ sq @ rest))"
  using assms
  by (cases d)
    (auto simp add: prettyfy_def generator_defs substr1_def
      split: option.splits if_splits sum.splits)

theorem property_drops_first_character_witness:
  "keyword \<lparr>keyword = ''additionalProperties'', dataPath = ''compilerOptions'',
      message = ''should NOT have additional properties'',
      params = AdditionalPropertiesParams ''x'', data = JUndefined\<rparr>
     \<in> set (templateKeywords Babel)
   \<and> prettyfy Babel \<lparr>keyword = ''additionalProperties'', dataPath = ''compilerOptions'',
      message = ''should NOT have additional properties'',
      params = AdditionalPropertiesParams ''x'', data = JUndefined\<rparr>
     = Inr (sq @ ''ompilerOptions'' @ ''' should NOT have additional properties''
            @ ''. Additional property found '' @ sq @ ''x'' @ '''.'')
   \<and> (\<exists>rest. sq @ ''ompilerOptions'' @ ''' should NOT have additional properties''
            @ ''. Additional property found '' @ sq @ ''x'' @ '''.''
          = sq @ ''ompilerOptions'' @ sq @ rest)"
proof -
  let ?e = "\<lparr>keyword = ''additionalProperties'', dataPath = ''compilerOptions'',
      message = ''should NOT have additional properties'',
      params = AdditionalPropertiesParams ''x'', data = JUndefined\<rparr>"
  let ?s = "sq @ ''ompilerOptions'' @ ''' should NOT have additional properties''
            @ ''. Additional property found '' @ sq @ ''x'' @ '''.''"
  have k: "keyword ?e \<in> set (templateKeywords Babel)"
    by simp
  have p: "prettyfy Babel ?e = Inr ?s"
    by (simp add: prettyfy_def generator_defs substr1_def)
  from property_drops_first_character [OF k p] have "\<exists>rest. ?s = sq @ ''ompilerOptions'' @ sq @ rest"
    by simp
  with k p show ?thesis
    by blast
qed

section \<open>Properties of the grouping\<close>

lemmas eval_defs =
  grouped_def groupBy_def own_entries_def is_array_index_def is_digit_def index_value_def
  example_heap_def object_heap_def validator_path_def

lemma set_first_occurrences: "set (first_occurrences xs) = set xs"
  by (induction xs rule: first_occurrences.induct) auto

lemma distinct_first_occurrences: "distinct (first_occurrences xs)"
  by (induction xs rule: first_occurrences.induct) (auto simp: set_first_occurrences)

lemma first_occurrences_snoc:
  "first_occurrences (xs @ [x]) =
     (if x \<in> set xs then first_occurrences xs else first_occurrences xs @ [x])"
  by (induction xs rule: first_occurrences.induct) auto

lemma push_value_map:
  "distinct ks \<Longrightarrow>
   push_value k v (map (\<lambda>k'. (k', f k')) ks) =
     (if k \<in> set ks then map (\<lambda>k'. (k', if k' = k then f k' @ [v] else f k')) ks
      else map (\<lambda>k'. (k', f k')) ks @ [(k, [v])])"
  by (induction ks) auto

lemma groupBy_snoc:
  "groupBy h (errors @ [v]) = push_value (dataPath (h v)) v (groupBy h errors)"
  by (simp add: groupBy_def)

lemma groupBy_closed_form:
  "groupBy h errors =
     map (\<lambda>k. (k, filter (\<lambda>r. dataPath (h r) = k) errors))
       (first_occurrences (map (\<lambda>r. dataPath (h r)) errors))"
proof (induction errors rule: rev_induct)
  case Nil
  show ?case by (simp add: groupBy_def)
next
  case (snoc v errors)
  let ?key = "\<lambda>r. dataPath (h r)"
  let ?ks = "first_occurrences (map ?key errors)"
  show ?case
  proof (cases "?key v \<in> set (map ?key errors)")
    case True
    then show ?thesis
      by (simp add: groupBy_snoc snoc.IH push_value_map distinct_first_occurrences
          first_occurrences_snoc set_first_occurrences)
  next
    case False
    then have neq: "\<forall>r \<in> set errors. ?key r \<noteq> ?key v"
      by (auto simp: image_iff)
    then have none: "filter (\<lambda>r. ?key r = ?key v) errors = []"
      by (simp add: filter_empty_conv)
    have "k \<noteq> ?key v" if "k \<in> set ?ks" for k
      using that neq by (auto simp: set_first_occurrences)
    then have same: "map (\<lambda>k. (k, filter (\<lambda>r. ?key r = k) (errors @ [v]))) ?ks
        = map (\<lambda>k. (k, filter (\<lambda>r. ?key r = k) errors)) ?ks"
      by auto
    from none have new: "filter (\<lambda>r. ?key r = ?key v) (errors @ [v]) = [v]"
      by simp
    from False show ?thesis
      by (simp add: groupBy_snoc snoc.IH push_value_map distinct_first_occurrences
          first_occurrences_snoc set_first_occurrences none same new del: filter_append)
  qed
qed


lemma set_own_entries: "set (own_entries obj) = set obj"
  by (auto simp add: own_entries_def)

lemma own_entries_no_index:
  assumes "\<forall>(k, vs) \<in> set obj. \<not> is_array_index k"
  shows "own_entries obj = obj"
proof -
  have "filter (\<lambda>(k, vs). is_array_index k) obj = []"
    using assms by (auto simp: filter_empty_conv)
  moreover have "filter (\<lambda>(k, vs). \<not> is_array_index k) obj = obj"
    using assms by (auto simp: filter_id_conv)
  ultimately show ?thesis
    by (simp add: own_entries_def)
qed

lemma grouped_entry:
  assumes "(k, vs) \<in> set (grouped h errors)"
  shows "vs = filter (\<lambda>r. dataPath (h r) = k) errors"
    and "k \<in> (\<lambda>r. dataPath (h r)) ` set errors"
  using assms
  by (auto simp: grouped_def set_own_entries groupBy_closed_form set_first_occurrences)

lemma grouped_has_group:
  assumes "r \<in> set errors"
  shows "(dataPath (h r), filter (\<lambda>x. dataPath (h x) = dataPath (h r)) errors) \<in> set (grouped h errors)"
  using assms
  by (auto simp: grouped_def set_own_entries groupBy_closed_form set_first_occurrences)

lemma validator_path_no_index: "validator_path p \<Longrightarrow> \<not> is_array_index p"
  by (cases p) (auto simp: validator_path_def is_array_index_def is_digit_def)

text \<open>
  Claim C2. For every list of validator errors, every error of the list is in exactly one
  group, the sequence of the keys of the groups is the sequence of the first occurrences of
  the distinct dataPaths of the list, and every group holds the errors of its dataPath in
  their order in the list: the groups are the distinct dataPaths in first-seen order, each
  with the sublist of its errors.
\<close>

theorem grouping_stable_partition:
  assumes "\<forall>r \<in> set errors. validator_path (dataPath (h r))"
  shows "(\<forall>r \<in> set errors. \<exists>!entry. entry \<in> set (grouped h errors) \<and> r \<in> set (snd entry))
   \<and> map fst (grouped h errors) = first_occurrences (map (\<lambda>r. dataPath (h r)) errors)
   \<and> (\<forall>(k, vs) \<in> set (grouped h errors). vs = filter (\<lambda>r. dataPath (h r) = k) errors)
   \<and> grouped h errors
       = map (\<lambda>k. (k, filter (\<lambda>r. dataPath (h r) = k) errors))
           (first_occurrences (map (\<lambda>r. dataPath (h r)) errors))"
proof (intro conjI)
  show "\<forall>r \<in> set errors. \<exists>!entry. entry \<in> set (grouped h errors) \<and> r \<in> set (snd entry)"
  proof
    fix r assume r: "r \<in> set errors"
    let ?e = "(dataPath (h r), filter (\<lambda>x. dataPath (h x) = dataPath (h r)) errors)"
    have "?e \<in> set (grouped h errors) \<and> r \<in> set (snd ?e)"
      using r grouped_has_group [OF r, of h] by simp
    moreover have "entry = ?e" if "entry \<in> set (grouped h errors)" "r \<in> set (snd entry)" for entry
    proof (cases entry)
      case (Pair k vs)
      with that have vs: "vs = filter (\<lambda>x. dataPath (h x) = k) errors"
        using grouped_entry(1) by blast
      with that Pair have "dataPath (h r) = k"
        by simp
      with vs Pair show ?thesis
        by simp
    qed
    ultimately show "\<exists>!entry. entry \<in> set (grouped h errors) \<and> r \<in> set (snd entry)"
      by blast
  qed
  show "\<forall>(k, vs) \<in> set (grouped h errors). vs = filter (\<lambda>r. dataPath (h r) = k) errors"
    using grouped_entry(1) by blast
  have "\<forall>(k, vs) \<in> set (groupBy h errors). \<not> is_array_index k"
    using assms
    by (auto simp: groupBy_closed_form set_first_occurrences dest: validator_path_no_index)
  then have same: "grouped h errors = groupBy h errors"
    unfolding grouped_def by (rule own_entries_no_index)
  then show "grouped h errors
       = map (\<lambda>k. (k, filter (\<lambda>r. dataPath (h r) = k) errors))
           (first_occurrences (map (\<lambda>r. dataPath (h r)) errors))"
    by (simp add: groupBy_closed_form)
  from same show "map fst (grouped h errors)
       = first_occurrences (map (\<lambda>r. dataPath (h r)) errors)"
    by (simp add: groupBy_closed_form comp_def)
qed

theorem grouping_stable_partition_witness:
  "list_all (\<lambda>r. validator_path (dataPath (example_heap r))) [0, 3, 1, 2]
   \<and> map (\<lambda>r. dataPath (example_heap r)) [0, 3, 1, 2]
       = [''.compilerOptions.target'', ''.compilerOptions'',
          ''.compilerOptions.target'', ''.compilerOptions.target'']
   \<and> grouped example_heap [0, 3, 1, 2]
       = [(''.compilerOptions.target'', [0, 1, 2]), (''.compilerOptions'', [3])]"
proof -
  have a: "\<forall>r \<in> set [0, 3, 1, 2]. validator_path (dataPath (example_heap r))"
    by (simp add: example_heap_def validator_path_def)
  have paths: "map (\<lambda>r. dataPath (example_heap r)) [0, 3, 1, 2]
       = [''.compilerOptions.target'', ''.compilerOptions'',
          ''.compilerOptions.target'', ''.compilerOptions.target'']"
    by (simp add: example_heap_def)
  from grouping_stable_partition [OF a]
  have "grouped example_heap [0, 3, 1, 2]
       = map (\<lambda>k. (k, filter (\<lambda>r. dataPath (example_heap r) = k) [0, 3, 1, 2]))
           (first_occurrences (map (\<lambda>r. dataPath (example_heap r)) [0, 3, 1, 2]))"
    by blast
  also have "\<dots> = [(''.compilerOptions.target'', [0, 1, 2]), (''.compilerOptions'', [3])]"
    unfolding paths by (simp add: example_heap_def)
  finally have g: "grouped example_heap [0, 3, 1, 2]
       = [(''.compilerOptions.target'', [0, 1, 2]), (''.compilerOptions'', [3])]" .
  from a have "list_all (\<lambda>r. validator_path (dataPath (example_heap r))) [0, 3, 1, 2]"
    by (simp only: list_all_iff)
  with paths g show ?thesis
    by (simp only: simp_thms)
qed

section \<open>Properties of the \<open>anyOf\<close> message\<close>

text \<open>
  Claim C1, as stated, fails: \<open>report\<close> is called with one group, and \<open>without\<close> is applied
  to that group, not to the error list of the event. For the list of an
  \<open>additionalProperties\<close> error at \<open>.compilerOptions\<close> and an \<open>anyOf\<close> error at
  \<open>.compilerOptions.target\<close>, the formatted other error of the full list is the
  \<open>additionalProperties\<close> sentence, but the diagnostic of the \<open>anyOf\<close> error is empty.
\<close>

theorem anyOf_full_list_counterexample:
  "grouped example_heap [3, 2]
     = [(''.compilerOptions'', [3]), (''.compilerOptions.target'', [2])]
   \<and> keyword (example_heap 2) = ''anyOf''
   \<and> map_throwing (\<lambda>r. prettyfy TypeScript (example_heap r)) (without [3, 2] 2)
     = Inr [sq @ ''compilerOptions'' @ ''' should NOT have additional properties''
            @ ''. Additional property found '' @ sq @ ''x'' @ '''.'']
   \<and> report_text TypeScript example_heap [2] 2 = Inr []
   \<and> map diag_text
        (sink (run TypeScript example_heap ''tsconfig.json''
           [(0, Acknowledged), (1, Acknowledged)]
           (invalidSchema example_heap
              \<lparr>schema_errors = [3, 2], schema_resource = ''tsconfig.json''\<rparr> [])))
     = [sq @ ''compilerOptions'' @ ''' should NOT have additional properties''
        @ ''. Additional property found '' @ sq @ ''x'' @ '''.'', []]"
  by (simp add: eval_defs without_def prettyfy_def generator_defs substr1_def run_def
      invalidSchema_def report_def report_step_def context_report_def)

text \<open>
  Claim C1, amended. In the typescript rule, the text computed for an error with keyword
  \<open>anyOf\<close> is the outputs of the formatter chain for the other errors of its own group, that
  is, for the errors of the event's list that have its dataPath, every occurrence of the
  \<open>anyOf\<close> error object itself left out, in their order in the list, joined by \<open>" or "\<close>;
  when the chain throws for one of them, so does the computation.
\<close>

theorem anyOf_message_from_group:
  assumes "(key, values) \<in> set (grouped h errors)" and "error \<in> set values"
    and "keyword (h error) = ''anyOf''"
  shows "report_text TypeScript h values error =
           (case map_throwing (\<lambda>r. prettyfy TypeScript (h r))
                   (filter (\<lambda>r. r \<noteq> error \<and> dataPath (h r) = dataPath (h error)) errors) of
              Inl exn \<Rightarrow> Inl exn
            | Inr results \<Rightarrow> Inr (join '' or '' results))"
proof -
  from assms(1) have vs_eq: "values = filter (\<lambda>r. dataPath (h r) = key) errors"
    by (rule grouped_entry(1))
  from assms(2) have k_eq: "dataPath (h error) = key"
    unfolding vs_eq by simp
  have "without values error
        = filter (\<lambda>r. r \<noteq> error \<and> dataPath (h r) = dataPath (h error)) errors"
    unfolding without_def vs_eq k_eq by (simp add: conj_commute)
  then show ?thesis
    using assms(3) by (simp add: Let_def)
qed

theorem anyOf_message_from_group_witness:
  "(''.compilerOptions.target'', [0, 1, 2]) \<in> set (grouped example_heap [0, 3, 1, 2])
   \<and> keyword (example_heap 2) = ''anyOf''
   \<and> report_text TypeScript example_heap [0, 1, 2] 2
       = Inr (sq @ ''compilerOptions.target'' @ ''' should be equal to one of the allowed values ''
              @ sq @ ''es3, es5'' @ '''. Value found '' @ sq @ ''invalid'' @ sq
              @ '' or ''
              @ sq @ ''compilerOptions.target'' @ ''' should match pattern '' @ sq @ ''^es$''
              @ '''. Value found '' @ sq @ ''invalid'' @ sq)"
proof -
  have g: "(''.compilerOptions.target'', [0, 1, 2]) \<in> set (grouped example_heap [0, 3, 1, 2])"
    by (simp add: eval_defs)
  have m: "(2::nat) \<in> set [0, 1, 2]"
    by simp
  have k: "keyword (example_heap 2) = ''anyOf''"
    by (simp add: example_heap_def)
  have "report_text TypeScript example_heap [0, 1, 2] 2
       = Inr (sq @ ''compilerOptions.target'' @ ''' should be equal to one of the allowed values ''
              @ sq @ ''es3, es5'' @ '''. Value found '' @ sq @ ''invalid'' @ sq
              @ '' or ''
              @ sq @ ''compilerOptions.target'' @ ''' should match pattern '' @ sq @ ''^es$''
              @ '''. Value found '' @ sq @ ''invalid'' @ sq)"
    unfolding anyOf_message_from_group [OF g m k]
    by (simp add: example_heap_def prettyfy_def generator_defs substr1_def array_join_def
        replace_quotes_def)
  with g k show ?thesis
    by (simp only: simp_thms)
qed

section \<open>Properties of the reporting tasks\<close>

lemma run_Nil: "run d h res [] c = c"
  by (simp add: run_def)

lemma run_Cons:
  "run d h res (turn # schedule) c = run d h res schedule (report_step d h res turn c)"
  by (simp add: run_def)


lemma task_errors_step:
  "task_errors (tasks (report_step d h res turn c) ! j) = task_errors (tasks c ! j)"
  by (cases "j = fst turn")
    (simp_all add: report_step_def Let_def split: list.splits sum.splits)



lemma task_errors_run:
  "task_errors (tasks (run d h res schedule c) ! j) = task_errors (tasks c ! j)"
  by (induction schedule arbitrary: c) (simp_all add: run_Nil run_Cons task_errors_step)

















section \<open>Properties of the chain over the store\<close>

lemma generateAdditionalPropertiesError_call_reads:
  "generateAdditionalPropertiesError_call error h
   = (generateAdditionalPropertiesError (h error), h)"
  by (simp add: generateAdditionalPropertiesError_call_def generateAdditionalPropertiesError_def
      read_field_def split: sum.splits)

lemma generateEnumError_call_reads:
  "generateEnumError_call error h = (generateEnumError (h error), h)"
  by (simp add: generateEnumError_call_def generateEnumError_def read_field_def
      split: sum.splits option.splits)

lemma generateTypeError_call_reads:
  "generateTypeError_call error h = (generateTypeError (h error), h)"
  by (simp add: generateTypeError_call_def generateTypeError_def read_field_def)

lemma generatePatternError_call_reads:
  "generatePatternError_call error h = (generatePatternError (h error), h)"
  by (simp add: generatePatternError_call_def generatePatternError_def read_field_def
      split: sum.splits)

lemmas generator_call_reads =
  generateAdditionalPropertiesError_call_reads generateEnumError_call_reads
  generateTypeError_call_reads generatePatternError_call_reads

text \<open>
  Claim C9. Formatting the error at an address twice in a row, the second call in the store
  that the first one leaves, yields the same result; a call leaves the store, and so the
  error record, as it was; and the result is the value of \<open>prettyfy\<close> on the record, a
  function of the five fields alone.
\<close>

theorem formatting_deterministic_and_pure:
  "fst (prettyfy_call d error (snd (prettyfy_call d error h))) = fst (prettyfy_call d error h)
   \<and> snd (prettyfy_call d error h) = h
   \<and> fst (prettyfy_call d error h) = prettyfy d (h error)"
proof -
  have "prettyfy_call d error h = (prettyfy d (h error), h)" for h
    by (cases d)
      (simp_all add: prettyfy_call_def prettyfy_def read_field_def generator_call_reads
        split: sum.splits)
  then show ?thesis
    by simp
qed

end
